theory Spec2Isabelle
  imports Complex_Main
begin

section \<open>JavaScript numbers\<close>

text \<open>
  The sources are TypeScript; every quantity is a \<open>number\<close>. The model takes the finite
  numbers to be the reals: rounding and overflow are not modelled. What the reals lack is
  written into the model where the code can meet it:
  \<^item> a quotient whose divisor is zero is \<open>NaN\<close> or \<open>\<plusminus>Infinity\<close> in JavaScript (where HOL
    would say \<open>x / 0 = 0\<close>); \<open>jsdiv\<close> returns \<open>None\<close> there, and a function that divides
    returns \<open>None\<close> when one of its quotients does: its JavaScript result has a
    non-finite field, which the model does not follow further;
  \<^item> \<open>Math.sqrt\<close> of a negative number is \<open>NaN\<close>, and every comparison with \<open>NaN\<close> is false;
  \<^item> \<open>a % b\<close> is the remainder of the division truncated towards zero, so it has the sign
    of \<open>a\<close>.
\<close>

definition jsdiv :: "real \<Rightarrow> real \<Rightarrow> real option" where
  "jsdiv a b = (if b = 0 then None else Some (a / b))"

definition jsrem :: "real \<Rightarrow> real \<Rightarrow> real" where
  \<comment> \<open>\<open>a % b\<close> for a divisor \<open>b \<noteq> 0\<close> (the sources only divide by \<open>2 * Math.PI\<close>).\<close>
  "jsrem a b = a - b * of_int (if 0 \<le> a / b then \<lfloor>a / b\<rfloor> else \<lceil>a / b\<rceil>)"

definition jssqrt :: "real \<Rightarrow> real option" where
  \<comment> \<open>\<open>Math.sqrt\<close>: \<open>None\<close> is \<open>NaN\<close>.\<close>
  "jssqrt x = (if x < 0 then None else Some (sqrt x))"

definition hypot :: "real \<Rightarrow> real \<Rightarrow> real" where
  \<comment> \<open>\<open>Math.hypot\<close> of two arguments.\<close>
  "hypot a b = sqrt (a\<^sup>2 + b\<^sup>2)"

definition atan2 :: "real \<Rightarrow> real \<Rightarrow> real" where
  \<comment> \<open>\<open>Math.atan2(y, x)\<close>: the angle of the point \<open>(x, y)\<close>, in \<open>(-\<pi>, \<pi>]\<close>; \<open>0\<close> at the origin.\<close>
  "atan2 y x =
     (if 0 < x then arctan (y / x)
      else if x < 0 then (if 0 \<le> y then arctan (y / x) + pi else arctan (y / x) - pi)
      else if 0 < y then pi / 2
      else if y < 0 then - (pi / 2)
      else 0)"

section \<open>Data model\<close>

text \<open>\<open>interface State\<close>: the two absolute angles and their velocities.\<close>

record State =
  theta1 :: real
  theta2 :: real
  dtheta1 :: real
  dtheta2 :: real

text \<open>
  \<open>interface Settings\<close> of the interactive application, and its extension by the two
  stiffness coefficients in the application with "conceptual" properties.
\<close>

record Settings =
  speed :: real
  m1 :: real
  m2 :: real
  L1 :: real
  L2 :: real
  g :: real
  damping :: real

record Settings2 = Settings +
  k1 :: real
  k2 :: real

text \<open>\<open>type DragTarget = 'm1' | 'm2' | null\<close>: \<open>null\<close> is \<open>None\<close> of \<open>DragTarget option\<close>.\<close>

datatype DragTarget = M1 | M2

section \<open>The interactive application: pointer handlers\<close>

text \<open>
  The handlers are the same in both interactive applications. The canvas width and the
  pointer event's \<open>(offsetX, offsetY)\<close> are arguments.
\<close>

definition getBobPositions :: "'a Settings_scheme \<Rightarrow> State \<Rightarrow> real \<times> real \<times> real \<times> real" where
  "getBobPositions p s =
     (let x1 = L1 p * sin (theta1 s);
          y1 = L1 p * cos (theta1 s);
          x2 = x1 + L2 p * sin (theta2 s);
          y2 = y1 + L2 p * cos (theta2 s)
      in (x1, y1, x2, y2))"

definition screenToSim :: "real \<Rightarrow> real \<times> real \<Rightarrow> real \<times> real" where
  "screenToSim width e = (fst e - width / 2, snd e - 100)"

definition within_pick :: "real \<Rightarrow> real option \<Rightarrow> bool" where
  \<comment> \<open>\<open>dist < r + 5\<close>, false when the radius is \<open>NaN\<close>.\<close>
  "within_pick d r = (case r of None \<Rightarrow> False | Some r' \<Rightarrow> d < r' + 5)"

definition onmousedown ::
  "'a Settings_scheme \<Rightarrow> real \<Rightarrow> State \<Rightarrow> real \<times> real \<Rightarrow> DragTarget option" where
  "onmousedown p width s e =
     (case getBobPositions p s of (x1, y1, x2, y2) \<Rightarrow>
      case screenToSim width e of (x, y) \<Rightarrow>
        let dist1 = hypot (x - x1) (y - y1);
            dist2 = hypot (x - x2) (y - y2);
            r1 = map_option (\<lambda>r. r * 0.5) (jssqrt (m1 p));
            r2 = map_option (\<lambda>r. r * 0.5) (jssqrt (m2 p))
        in if within_pick dist2 r2 then Some M2
           else if within_pick dist1 r1 then Some M1
           else None)"

definition clampedD :: "'a Settings_scheme \<Rightarrow> real \<Rightarrow> real \<Rightarrow> real" where
  "clampedD p x y = min (L1 p + L2 p) (max \<bar>L1 p - L2 p\<bar> (hypot x y))"

definition onmousemove ::
  "'a Settings_scheme \<Rightarrow> real \<Rightarrow> DragTarget option \<Rightarrow> State \<Rightarrow> real \<times> real \<Rightarrow> State option" where
  "onmousemove p width drag s e =
     (case drag of
        None \<Rightarrow> Some s
      | Some M1 \<Rightarrow>
          (case screenToSim width e of (x, y) \<Rightarrow>
             Some (s\<lparr>theta1 := atan2 x y, dtheta1 := 0\<rparr>))
      | Some M2 \<Rightarrow>
          (case screenToSim width e of (x, y) \<Rightarrow>
             let cD = clampedD p x y;
                 angleToTarget = atan2 x y
             in case jsdiv ((L1 p)\<^sup>2 + cD\<^sup>2 - (L2 p)\<^sup>2) (2 * L1 p * cD) of
                  None \<Rightarrow> None
                | Some cosA \<Rightarrow>
                   (let A = arccos (min 1 (max (- 1) cosA));
                        th1 = angleToTarget - A
                    in case jsdiv ((L1 p)\<^sup>2 + (L2 p)\<^sup>2 - cD\<^sup>2) (2 * L1 p * L2 p) of
                         None \<Rightarrow> None
                       | Some cosB \<Rightarrow>
                          (let B = arccos (min 1 (max (- 1) cosB));
                               th2 = pi - B
                           in Some (s\<lparr>theta1 := th1, theta2 := th1 + th2,
                                       dtheta1 := 0, dtheta2 := 0\<rparr>)))))"

section \<open>The interactive application: the frame\<close>

definition denom :: "'a Settings_scheme \<Rightarrow> State \<Rightarrow> real" where
  "denom p s = 2 * m1 p + m2 p - m2 p * cos (2 * (theta1 s - theta2 s))"

definition numer1 :: "'a Settings_scheme \<Rightarrow> State \<Rightarrow> real" where
  "numer1 p s =
     (let delta = theta1 s - theta2 s
      in - g p * (2 * m1 p + m2 p) * sin (theta1 s)
         - m2 p * g p * sin (theta1 s - 2 * theta2 s)
         - 2 * sin delta * m2 p *
             ((dtheta2 s)\<^sup>2 * L2 p + (dtheta1 s)\<^sup>2 * L1 p * cos delta))"

definition numer2 :: "'a Settings_scheme \<Rightarrow> State \<Rightarrow> real" where
  "numer2 p s =
     (let delta = theta1 s - theta2 s
      in 2 * sin delta *
           ((dtheta1 s)\<^sup>2 * L1 p * (m1 p + m2 p)
            + g p * (m1 p + m2 p) * cos (theta1 s)
            + (dtheta2 s)\<^sup>2 * L2 p * m2 p * cos delta))"

definition ddtheta1 :: "'a Settings_scheme \<Rightarrow> State \<Rightarrow> real option" where
  "ddtheta1 p s = jsdiv (numer1 p s) (L1 p * denom p s)"

definition ddtheta2 :: "'a Settings_scheme \<Rightarrow> State \<Rightarrow> real option" where
  "ddtheta2 p s = jsdiv (numer2 p s) (L2 p * denom p s)"

definition wrapAngle :: "real \<Rightarrow> real" where
  \<comment> \<open>\<open>((theta + Math.PI) % (2 * Math.PI)) - Math.PI\<close>\<close>
  "wrapAngle th = jsrem (th + pi) (2 * pi) - pi"

definition stepState :: "'a Settings_scheme \<Rightarrow> real \<Rightarrow> State \<Rightarrow> State option" where
  \<comment> \<open>The block of \<open>drawFrame\<close> that runs when no bob is dragged.\<close>
  "stepState p dt s =
     (case ddtheta1 p s of None \<Rightarrow> None | Some a1 \<Rightarrow>
      case ddtheta2 p s of None \<Rightarrow> None | Some a2 \<Rightarrow>
        let nd1 = dtheta1 s + (a1 - damping p * dtheta1 s) * dt;
            nd2 = dtheta2 s + (a2 - damping p * dtheta2 s) * dt;
            t1 = theta1 s + nd1 * dt;
            t2 = theta2 s + nd2 * dt
        in Some \<lparr>theta1 = wrapAngle t1, theta2 = wrapAngle t2,
                  dtheta1 = nd1, dtheta2 = nd2\<rparr>)"

text \<open>
  What a frame does after the state update: \<open>Exploded\<close> is the branch that calls
  \<open>console.warn\<close> and returns, drawing nothing and scheduling no further frame;
  \<open>Rendered\<close> draws the pendulum and ends with \<open>requestAnimationFrame(drawFrame)\<close>.
\<close>

datatype FrameOutcome = Exploded | Rendered

definition drawFrame ::
  "Settings \<Rightarrow> DragTarget option \<Rightarrow> State \<Rightarrow> (State \<times> FrameOutcome) option" where
  "drawFrame p drag s =
     (let fixedDt = 1 / 20;
          dt = fixedDt * speed p
      in case (if drag = None then stepState p dt s else Some s) of
           None \<Rightarrow> None
         | Some s' \<Rightarrow>
            (case getBobPositions p s' of (x1, y1, x2, y2) \<Rightarrow>
               if \<bar>x1\<bar> > 10000 \<or> \<bar>x2\<bar> > 10000 then Some (s', Exploded)
               else Some (s', Rendered)))"

text \<open>
  The frames that follow one another: each \<open>Rendered\<close> frame schedules the next, an
  \<open>Exploded\<close> one schedules none. The list holds the settings and the drag target current
  at each of the frames to come (both are read afresh by every frame); the result is the
  list of states the frames leave behind. A frame whose state is not finite is not
  followed.
\<close>

fun frames :: "(Settings \<times> DragTarget option) list \<Rightarrow> State \<Rightarrow> State list" where
  "frames [] s = []"
| "frames ((p, d) # rest) s =
     (case drawFrame p d s of
        None \<Rightarrow> []
      | Some (s', Exploded) \<Rightarrow> [s']
      | Some (s', Rendered) \<Rightarrow> s' # frames rest s')"

section \<open>The application with stiffness: accelerations of its frame\<close>

definition numer1_k :: "Settings2 \<Rightarrow> State \<Rightarrow> real" where
  "numer1_k p s =
     (let delta = theta1 s - theta2 s
      in - g p * (2 * m1 p + m2 p) * sin (theta1 s)
         - m2 p * g p * sin (theta1 s - 2 * theta2 s)
         - 2 * sin delta * m2 p *
             ((dtheta2 s)\<^sup>2 * L2 p + (dtheta1 s)\<^sup>2 * L1 p * cos delta)
         - k1 p * theta1 s)"

definition numer2_k :: "Settings2 \<Rightarrow> State \<Rightarrow> real" where
  "numer2_k p s =
     (let delta = theta1 s - theta2 s
      in 2 * sin delta *
           ((dtheta1 s)\<^sup>2 * L1 p * (m1 p + m2 p)
            + g p * (m1 p + m2 p) * cos (theta1 s)
            + (dtheta2 s)\<^sup>2 * L2 p * m2 p * cos delta)
         - k2 p * (theta2 s - theta1 s))"

definition ddtheta1_k :: "Settings2 \<Rightarrow> State \<Rightarrow> real option" where
  "ddtheta1_k p s = jsdiv (numer1_k p s) (L1 p * denom p s)"

definition ddtheta2_k :: "Settings2 \<Rightarrow> State \<Rightarrow> real option" where
  "ddtheta2_k p s = jsdiv (numer2_k p s) (L2 p * denom p s)"

section \<open>updateState\<close>

definition den :: "Settings2 \<Rightarrow> State \<Rightarrow> real" where
  "den p s =
     (m1 p + m2 p) * L1 p
     - m2 p * L1 p * cos (theta1 s - theta2 s) * cos (theta1 s - theta2 s)"

definition updateState_numer1 :: "Settings2 \<Rightarrow> State \<Rightarrow> real" where
  "updateState_numer1 p s =
     - g p * (m1 p + m2 p) * sin (theta1 s)
     - m2 p * g p * sin (theta1 s - 2 * theta2 s)
     - 2 * sin (theta1 s - theta2 s) * m2 p *
         (dtheta2 s * dtheta2 s * L2 p
          + dtheta1 s * dtheta1 s * L1 p * cos (theta1 s - theta2 s))
     - k1 p * theta1 s
     - damping p * dtheta1 s"

definition updateState_numer2 :: "Settings2 \<Rightarrow> State \<Rightarrow> real" where
  "updateState_numer2 p s =
     2 * sin (theta1 s - theta2 s) *
       (dtheta1 s * dtheta1 s * L1 p * (m1 p + m2 p)
        + g p * (m1 p + m2 p) * cos (theta1 s)
        + dtheta2 s * dtheta2 s * L2 p * m2 p * cos (theta1 s - theta2 s))
     - k2 p * theta2 s
     - damping p * dtheta2 s"

definition updateState_ddtheta1 :: "Settings2 \<Rightarrow> State \<Rightarrow> real option" where
  "updateState_ddtheta1 p s = jsdiv (updateState_numer1 p s) (L1 p * den p s)"

definition updateState_ddtheta2 :: "Settings2 \<Rightarrow> State \<Rightarrow> real option" where
  "updateState_ddtheta2 p s = jsdiv (updateState_numer2 p s) (L2 p * den p s)"

definition updateState :: "State \<Rightarrow> real \<Rightarrow> Settings2 \<Rightarrow> State option" where
  "updateState s dt p =
     (case updateState_ddtheta1 p s of None \<Rightarrow> None | Some a1 \<Rightarrow>
      case updateState_ddtheta2 p s of None \<Rightarrow> None | Some a2 \<Rightarrow>
        let newDtheta1 = dtheta1 s + a1 * dt;
            newDtheta2 = dtheta2 s + a2 * dt;
            newTheta1 = theta1 s + newDtheta1 * dt;
            newTheta2 = theta2 s + newDtheta2 * dt
        in Some \<lparr>theta1 = newTheta1, theta2 = newTheta2,
                  dtheta1 = newDtheta1, dtheta2 = newDtheta2\<rparr>)"

section \<open>simulateDoublePendulum\<close>

text \<open>
  \<open>interface PendulumParams\<close>. Its fields carry the suffix \<open>_p\<close>, the plain names being
  those of \<open>State\<close> and \<open>Settings\<close>. The four mutable locals \<open>theta1\<close>, \<open>theta2\<close>, \<open>dtheta1\<close>,
  \<open>dtheta2\<close> of the function are a \<open>State\<close>.
\<close>

record PendulumParams =
  m1_p :: real
  m2_p :: real
  L1_p :: real
  L2_p :: real
  g_p :: real
  theta1_p :: real
  theta2_p :: real
  dtheta1_p :: real
  dtheta2_p :: real
  dt_p :: real
  steps_p :: real

definition sim_denom :: "PendulumParams \<Rightarrow> State \<Rightarrow> real" where
  "sim_denom p s = 2 * m1_p p + m2_p p - m2_p p * cos (2 * (theta1 s - theta2 s))"

definition sim_ddtheta1 :: "PendulumParams \<Rightarrow> State \<Rightarrow> real option" where
  "sim_ddtheta1 p s =
     (let delta = theta1 s - theta2 s
      in jsdiv
           (- g_p p * (2 * m1_p p + m2_p p) * sin (theta1 s)
            - m2_p p * g_p p * sin (theta1 s - 2 * theta2 s)
            - 2 * sin delta * m2_p p *
                ((dtheta2 s)\<^sup>2 * L2_p p + (dtheta1 s)\<^sup>2 * L1_p p * cos delta))
           (L1_p p * sim_denom p s))"

definition sim_ddtheta2 :: "PendulumParams \<Rightarrow> State \<Rightarrow> real option" where
  "sim_ddtheta2 p s =
     (let delta = theta1 s - theta2 s
      in jsdiv
           (2 * sin delta *
              ((dtheta1 s)\<^sup>2 * L1_p p * (m1_p p + m2_p p)
               + g_p p * (m1_p p + m2_p p) * cos (theta1 s)
               + (dtheta2 s)\<^sup>2 * L2_p p * m2_p p * cos delta))
           (L2_p p * sim_denom p s))"

definition sim_step :: "PendulumParams \<Rightarrow> State \<Rightarrow> State option" where
  \<comment> \<open>The four assignments to the locals in one iteration of the loop.\<close>
  "sim_step p s =
     (case sim_ddtheta1 p s of None \<Rightarrow> None | Some a1 \<Rightarrow>
      case sim_ddtheta2 p s of None \<Rightarrow> None | Some a2 \<Rightarrow>
        let nd1 = dtheta1 s + a1 * dt_p p;
            nd2 = dtheta2 s + a2 * dt_p p
        in Some \<lparr>theta1 = theta1 s + nd1 * dt_p p, theta2 = theta2 s + nd2 * dt_p p,
                  dtheta1 = nd1, dtheta2 = nd2\<rparr>)"

definition jsindex :: "real list \<Rightarrow> nat \<Rightarrow> real option" where
  \<comment> \<open>\<open>xs[i]\<close> read as a number: \<open>undefined\<close> out of range, which is \<open>NaN\<close> in a sum.\<close>
  "jsindex xs i = (if i < length xs then Some (xs ! i) else None)"

type_synonym traces = "real list \<times> real list \<times> real list \<times> real list"

function sim_loop :: "PendulumParams \<Rightarrow> nat \<Rightarrow> State \<Rightarrow> traces \<Rightarrow> traces option" where
  "sim_loop p i s (x1, y1, x2, y2) =
     (if real i < steps_p p then
        (case sim_step p s of
           None \<Rightarrow> None
         | Some s' \<Rightarrow>
            (let x1' = x1 @ [L1_p p * sin (theta1 s')];
                 y1' = y1 @ [- L1_p p * cos (theta1 s')]
             in case jsindex x1' i of None \<Rightarrow> None | Some x1i \<Rightarrow>
                case jsindex y1' i of None \<Rightarrow> None | Some y1i \<Rightarrow>
                  sim_loop p (i + 1) s'
                    (x1', y1', x2 @ [x1i + L2_p p * sin (theta2 s')],
                     y2 @ [y1i - L2_p p * cos (theta2 s')])))
      else Some (x1, y1, x2, y2))"
  by pat_completeness auto
termination
proof (relation "measure (\<lambda>(p, i, s, t). nat \<lceil>steps_p p\<rceil> - i)")
  show "wf (measure (\<lambda>(p, i, s, t). nat \<lceil>steps_p p\<rceil> - i))"
    by simp
next
  fix p :: PendulumParams and i :: nat and s :: State
    and x1 y1 x2 y2 :: "real list" and s' :: State
    and x1' y1' :: "real list" and x1i y1i :: real
  assume "real i < steps_p p"
  then have "int i < \<lceil>steps_p p\<rceil>"
    by (simp add: less_ceiling_iff)
  then have "i < nat \<lceil>steps_p p\<rceil>"
    by simp
  then show "((p, i + 1, s', x1', y1', x2 @ [x1i + L2_p p * sin (theta2 s')],
               y2 @ [y1i - L2_p p * cos (theta2 s')]),
              (p, i, s, x1, y1, x2, y2))
             \<in> measure (\<lambda>(p, i, s, t). nat \<lceil>steps_p p\<rceil> - i)"
    by simp
qed

declare sim_loop.simps [simp del]

definition simulateDoublePendulum :: "PendulumParams \<Rightarrow> traces option" where
  "simulateDoublePendulum p =
     sim_loop p 0
       \<lparr>theta1 = theta1_p p, theta2 = theta2_p p,
        dtheta1 = dtheta1_p p, dtheta2 = dtheta2_p p\<rparr>
       ([], [], [], [])"

text \<open>The state of the locals after \<open>k\<close> iterations of the loop.\<close>

fun sim_iter :: "PendulumParams \<Rightarrow> nat \<Rightarrow> State \<Rightarrow> State option" where
  "sim_iter p 0 s = Some s"
| "sim_iter p (Suc k) s = (case sim_step p s of None \<Rightarrow> None | Some s' \<Rightarrow> sim_iter p k s')"

section \<open>The remainder and the angle wrap\<close>

lemma jsrem_nonneg:
  assumes "0 \<le> a" and "0 < b"
  shows "0 \<le> jsrem a b \<and> jsrem a b < b"
proof -
  have q: "0 \<le> a / b"
    using assms by simp
  have lo: "of_int \<lfloor>a / b\<rfloor> * b \<le> a"
    by (subst pos_le_divide_eq [symmetric, OF assms(2)]) simp
  have "a / b < of_int \<lfloor>a / b\<rfloor> + 1"
    by linarith
  then have hi: "a < (of_int \<lfloor>a / b\<rfloor> + 1) * b"
    by (subst (asm) pos_divide_less_eq [OF assms(2)])
  show ?thesis
    using q lo hi by (simp add: jsrem_def algebra_simps)
qed

lemma jsrem_small: "\<bar>a\<bar> < b \<Longrightarrow> jsrem a b = a"
proof -
  assume h: "\<bar>a\<bar> < b"
  then have b: "0 < b" by linarith
  have 1: "a / b < 1" "- 1 < a / b" using h b by (simp_all add: pos_divide_less_eq pos_less_divide_eq)
  show ?thesis
  proof (cases "0 \<le> a / b")
    case True
    then have "\<lfloor>a / b\<rfloor> = 0" using 1 by (simp add: floor_eq_iff)
    then show ?thesis using True by (simp add: jsrem_def)
  next
    case False
    then have "\<lceil>a / b\<rceil> = 0" using 1 by (simp add: ceiling_eq_iff)
    then show ?thesis using False by (simp add: jsrem_def)
  qed
qed

lemma wrapAngle_range:
  assumes "- pi \<le> th"
  shows "- pi \<le> wrapAngle th \<and> wrapAngle th < pi"
  using jsrem_nonneg [of "th + pi" "2 * pi"] assms by (simp add: wrapAngle_def)

lemma wrapAngle_minus_5: "wrapAngle (- 5) = - 5"
proof -
  have "\<bar>- 5 + pi\<bar> < 2 * pi" using pi_ge_two pi_less_4 by (simp add: abs_if)
  then show ?thesis by (simp add: wrapAngle_def jsrem_small)
qed

lemma wrapAngle_pi: "wrapAngle pi = - pi"
  by (simp add: wrapAngle_def jsrem_def)

lemma wrapAngle_4: "wrapAngle 4 = 4 - 2 * pi"
proof -
  have "1 \<le> (4 + pi) / (2 * pi)" "(4 + pi) / (2 * pi) < 2"
    using pi_ge_two pi_less_4 by (simp_all add: pos_le_divide_eq pos_divide_less_eq)
  then have "\<lfloor>(4 + pi) / (2 * pi)\<rfloor> = 1"
    by (simp add: floor_eq_iff)
  moreover have "0 \<le> (4 + pi) / (2 * pi)"
    by simp
  ultimately show ?thesis
    by (simp add: wrapAngle_def jsrem_def)
qed

lemma wrapAngle_id: "- pi < th \<Longrightarrow> th < pi \<Longrightarrow> wrapAngle th = th"
  by (simp add: wrapAngle_def jsrem_small abs_if)

lemma wrapAngle_pi_half: "wrapAngle (pi / 2) = pi / 2"
  by (simp add: wrapAngle_id)

section \<open>Angles after a step\<close>

text \<open>
  C1 (as the code has it). After one step of the frame (\<open>stepState\<close>) that yields a finite
  state, each angle whose un-wrapped value \<open>theta + dtheta' * dt\<close> is at least \<open>-\<pi>\<close> lies in
  the half-open interval \<open>[-\<pi>, \<pi>)\<close>. \<open>updateState\<close> wraps nothing: it returns the
  un-wrapped angles \<open>theta + dtheta' * dt\<close>.
\<close>

theorem angle_wrap_after_step:
  "(stepState p dt s = Some s' \<longrightarrow>
      (- pi \<le> theta1 s + dtheta1 s' * dt \<longrightarrow> - pi \<le> theta1 s' \<and> theta1 s' < pi) \<and>
      (- pi \<le> theta2 s + dtheta2 s' * dt \<longrightarrow> - pi \<le> theta2 s' \<and> theta2 s' < pi)) \<and>
   (updateState s dt q = Some u \<longrightarrow>
      theta1 u = theta1 s + dtheta1 u * dt \<and> theta2 u = theta2 s + dtheta2 u * dt)"
proof (intro conjI impI)
  assume "stepState p dt s = Some s'"
  then obtain a1 a2 where s': "s' = \<lparr>theta1 = wrapAngle (theta1 s + (dtheta1 s + (a1 - damping p * dtheta1 s) * dt) * dt),
      theta2 = wrapAngle (theta2 s + (dtheta2 s + (a2 - damping p * dtheta2 s) * dt) * dt),
      dtheta1 = dtheta1 s + (a1 - damping p * dtheta1 s) * dt,
      dtheta2 = dtheta2 s + (a2 - damping p * dtheta2 s) * dt\<rparr>"
    by (auto simp: stepState_def Let_def split: option.splits)
  {
    assume "- pi \<le> theta1 s + dtheta1 s' * dt"
    then show "- pi \<le> theta1 s'" "theta1 s' < pi"
      using wrapAngle_range [of "theta1 s + dtheta1 s' * dt"] by (simp_all add: s')
  }
  {
    assume "- pi \<le> theta2 s + dtheta2 s' * dt"
    then show "- pi \<le> theta2 s'" "theta2 s' < pi"
      using wrapAngle_range [of "theta2 s + dtheta2 s' * dt"] by (simp_all add: s')
  }
next
  assume "updateState s dt q = Some u"
  then show "theta1 u = theta1 s + dtheta1 u * dt" "theta2 u = theta2 s + dtheta2 u * dt"
    by (auto simp: updateState_def Let_def split: option.splits)
qed

text \<open>
  The witness is a step that wraps: from \<open>theta = 3\<close> with velocity \<open>20\<close> and no gravity the
  un-wrapped angle is \<open>4\<close>, stored as \<open>4 - 2\<pi>\<close>; \<open>updateState\<close> returns \<open>4\<close>.
\<close>

theorem angle_wrap_after_step_witness:
  "stepState \<lparr>speed = 1, m1 = 100, m2 = 50, L1 = 100, L2 = 50, g = 0, damping = 0\<rparr> (1 / 20)
      \<lparr>theta1 = 3, theta2 = 3, dtheta1 = 20, dtheta2 = 20\<rparr>
     = Some \<lparr>theta1 = 4 - 2 * pi, theta2 = 4 - 2 * pi, dtheta1 = 20, dtheta2 = 20\<rparr>
   \<and> - pi \<le> (3::real) + 20 * (1 / 20)
   \<and> - pi \<le> 4 - 2 * pi \<and> 4 - 2 * pi < pi
   \<and> updateState \<lparr>theta1 = 3, theta2 = 3, dtheta1 = 20, dtheta2 = 20\<rparr> (1 / 20)
        \<lparr>speed = 1, m1 = 100, m2 = 50, L1 = 100, L2 = 50, g = 0, damping = 0, k1 = 0, k2 = 0\<rparr>
     = Some \<lparr>theta1 = 4, theta2 = 4, dtheta1 = 20, dtheta2 = 20\<rparr>
   \<and> (4::real) = 3 + 20 * (1 / 20)"
proof -
  have e1: "stepState \<lparr>speed = 1, m1 = 100, m2 = 50, L1 = 100, L2 = 50, g = 0, damping = 0\<rparr> (1 / 20)
      \<lparr>theta1 = 3, theta2 = 3, dtheta1 = 20, dtheta2 = 20\<rparr>
     = Some \<lparr>theta1 = 4 - 2 * pi, theta2 = 4 - 2 * pi, dtheta1 = 20, dtheta2 = 20\<rparr>"
    by (simp add: stepState_def ddtheta1_def ddtheta2_def numer1_def numer2_def denom_def
        jsdiv_def wrapAngle_4)
  have e2: "updateState \<lparr>theta1 = 3, theta2 = 3, dtheta1 = 20, dtheta2 = 20\<rparr> (1 / 20)
        \<lparr>speed = 1, m1 = 100, m2 = 50, L1 = 100, L2 = 50, g = 0, damping = 0, k1 = 0, k2 = 0\<rparr>
     = Some \<lparr>theta1 = 4, theta2 = 4, dtheta1 = 20, dtheta2 = 20\<rparr>"
    by (simp add: updateState_def updateState_ddtheta1_def updateState_ddtheta2_def
        updateState_numer1_def updateState_numer2_def den_def jsdiv_def)
  have h: "- pi \<le> (3::real) + 20 * (1 / 20)"
    using pi_gt_zero by linarith
  from angle_wrap_after_step [of "\<lparr>speed = 1, m1 = 100, m2 = 50, L1 = 100, L2 = 50, g = 0, damping = 0\<rparr>"
      "1 / 20" "\<lparr>theta1 = 3, theta2 = 3, dtheta1 = 20, dtheta2 = 20\<rparr>"
      "\<lparr>theta1 = 4 - 2 * pi, theta2 = 4 - 2 * pi, dtheta1 = 20, dtheta2 = 20\<rparr>"
      "\<lparr>speed = 1, m1 = 100, m2 = 50, L1 = 100, L2 = 50, g = 0, damping = 0, k1 = 0, k2 = 0\<rparr>"
      "\<lparr>theta1 = 4, theta2 = 4, dtheta1 = 20, dtheta2 = 20\<rparr>"] e1 e2 h
  show ?thesis
    by simp
qed

text \<open>
  C1 as stated fails in three ways. The remainder keeps the sign of its dividend, so an
  un-wrapped angle below \<open>-\<pi>\<close> is stored as it is (\<open>-5\<close> here). An un-wrapped angle of
  exactly \<open>\<pi>\<close> is stored as \<open>-\<pi>\<close>, the end the claim excludes. \<open>updateState\<close> returns \<open>10\<close>.
\<close>

theorem angle_wrap_counterexample:
  "map_option theta1
     (stepState \<lparr>speed = 1, m1 = 100, m2 = 50, L1 = 100, L2 = 50, g = 981 / 100, damping = 0\<rparr>
        (1 / 20) \<lparr>theta1 = 0, theta2 = 0, dtheta1 = - 100, dtheta2 = - 100\<rparr>) = Some (- 5)
   \<and> \<not> - pi < (- 5 :: real)
   \<and> map_option theta1
     (stepState \<lparr>speed = 1, m1 = 100, m2 = 50, L1 = 100, L2 = 50, g = 981 / 100, damping = 0\<rparr>
        (1 / 20) \<lparr>theta1 = pi, theta2 = pi, dtheta1 = 0, dtheta2 = 0\<rparr>) = Some (- pi)
   \<and> map_option theta1
     (updateState \<lparr>theta1 = 0, theta2 = 0, dtheta1 = 100, dtheta2 = 100\<rparr> (1 / 10)
        \<lparr>speed = 1, m1 = 100, m2 = 50, L1 = 100, L2 = 50, g = 981 / 100, damping = 0,
         k1 = 0, k2 = 0\<rparr>) = Some 10
   \<and> \<not> (10 :: real) \<le> pi"
proof -
  have "pi < 5" "pi < 10"
    using pi_less_4 by simp_all
  then show ?thesis
    by (simp add: stepState_def ddtheta1_def ddtheta2_def numer1_def numer2_def denom_def
        updateState_def updateState_ddtheta1_def updateState_ddtheta2_def
        updateState_numer1_def updateState_numer2_def den_def jsdiv_def wrapAngle_minus_5 wrapAngle_pi)
qed

section \<open>Dragging bob 1\<close>

text \<open>
  C4 (as the code has it). A pointer move with drag target \<open>m1\<close> sets \<open>theta1\<close> to
  \<open>atan2(x, y)\<close> of the pointer in simulation coordinates and \<open>dtheta1\<close> to zero, and leaves
  \<open>theta2\<close> and \<open>dtheta2\<close> as they were.
\<close>

theorem drag_bob1:
  "map_option (\<lambda>s'. (theta1 s', theta2 s', dtheta1 s', dtheta2 s'))
     (onmousemove p width (Some M1) s e)
   = Some (atan2 (fst (screenToSim width e)) (snd (screenToSim width e)),
           theta2 s, 0, dtheta2 s)"
  by (simp add: onmousemove_def split: prod.splits)

text \<open>C4 as stated fails on \<open>dtheta2\<close>: a velocity of \<open>1\<close> is still \<open>1\<close> after the drag.\<close>

theorem drag_bob1_counterexample:
  "map_option dtheta2
     (onmousemove \<lparr>speed = 1, m1 = 100, m2 = 50, L1 = 100, L2 = 50, g = 981 / 100, damping = 0\<rparr>
        600 (Some M1) \<lparr>theta1 = 0, theta2 = 0, dtheta1 = 1, dtheta2 = 1\<rparr> (300, 200))
   = Some 1"
  by (simp add: onmousemove_def screenToSim_def)

section \<open>The integration scheme\<close>

text \<open>
  C2 (as the code has it). In the frame's step the accelerations \<open>ddtheta1\<close>, \<open>ddtheta2\<close> do not
  depend on the damping; each velocity becomes \<open>dtheta + (ddtheta - damping * dtheta) * dt\<close>
  and each angle is then advanced with the new velocity, \<open>theta + dtheta' * dt\<close>, and
  wrapped. In \<open>updateState\<close> the damping is a term \<open>- damping * dtheta\<close> of the acceleration
  numerator, so it is divided by \<open>L * den\<close> with the rest; the velocity becomes
  \<open>dtheta + ddtheta * dt\<close> and the angle \<open>theta + dtheta' * dt\<close> with the new velocity.
\<close>

theorem integration_scheme:
  "(stepState p dt s = Some s' \<longrightarrow>
      (\<exists>a1 a2. ddtheta1 p s = Some a1 \<and> ddtheta2 p s = Some a2 \<and>
         dtheta1 s' = dtheta1 s + (a1 - damping p * dtheta1 s) * dt \<and>
         dtheta2 s' = dtheta2 s + (a2 - damping p * dtheta2 s) * dt) \<and>
      theta1 s' = wrapAngle (theta1 s + dtheta1 s' * dt) \<and>
      theta2 s' = wrapAngle (theta2 s + dtheta2 s' * dt)) \<and>
   ddtheta1 (p\<lparr>damping := c\<rparr>) s = ddtheta1 p s \<and>
   ddtheta2 (p\<lparr>damping := c\<rparr>) s = ddtheta2 p s \<and>
   (updateState s dt q = Some u \<longrightarrow>
      (\<exists>a1 a2. updateState_ddtheta1 q s = Some a1 \<and> updateState_ddtheta2 q s = Some a2 \<and>
         dtheta1 u = dtheta1 s + a1 * dt \<and> dtheta2 u = dtheta2 s + a2 * dt) \<and>
      theta1 u = theta1 s + dtheta1 u * dt \<and>
      theta2 u = theta2 s + dtheta2 u * dt) \<and>
   updateState_numer1 q s = updateState_numer1 (q\<lparr>damping := 0\<rparr>) s - damping q * dtheta1 s \<and>
   updateState_numer2 q s = updateState_numer2 (q\<lparr>damping := 0\<rparr>) s - damping q * dtheta2 s"
proof (intro conjI impI)
  assume "stepState p dt s = Some s'"
  then obtain a1 a2 where a: "ddtheta1 p s = Some a1" "ddtheta2 p s = Some a2"
    and s': "s' = \<lparr>theta1 = wrapAngle (theta1 s + (dtheta1 s + (a1 - damping p * dtheta1 s) * dt) * dt),
      theta2 = wrapAngle (theta2 s + (dtheta2 s + (a2 - damping p * dtheta2 s) * dt) * dt),
      dtheta1 = dtheta1 s + (a1 - damping p * dtheta1 s) * dt,
      dtheta2 = dtheta2 s + (a2 - damping p * dtheta2 s) * dt\<rparr>"
    by (auto simp: stepState_def Let_def split: option.splits)
  show "\<exists>a1 a2. ddtheta1 p s = Some a1 \<and> ddtheta2 p s = Some a2 \<and>
         dtheta1 s' = dtheta1 s + (a1 - damping p * dtheta1 s) * dt \<and>
         dtheta2 s' = dtheta2 s + (a2 - damping p * dtheta2 s) * dt"
    using a by (simp add: s')
  show "theta1 s' = wrapAngle (theta1 s + dtheta1 s' * dt)"
    by (simp add: s')
  show "theta2 s' = wrapAngle (theta2 s + dtheta2 s' * dt)"
    by (simp add: s')
next
  show "ddtheta1 (p\<lparr>damping := c\<rparr>) s = ddtheta1 p s"
    by (simp add: ddtheta1_def numer1_def denom_def Let_def)
  show "ddtheta2 (p\<lparr>damping := c\<rparr>) s = ddtheta2 p s"
    by (simp add: ddtheta2_def numer2_def denom_def Let_def)
next
  assume "updateState s dt q = Some u"
  then obtain a1 a2 where a: "updateState_ddtheta1 q s = Some a1" "updateState_ddtheta2 q s = Some a2"
    and u: "u = \<lparr>theta1 = theta1 s + (dtheta1 s + a1 * dt) * dt,
      theta2 = theta2 s + (dtheta2 s + a2 * dt) * dt,
      dtheta1 = dtheta1 s + a1 * dt, dtheta2 = dtheta2 s + a2 * dt\<rparr>"
    by (auto simp: updateState_def Let_def split: option.splits)
  show "\<exists>a1 a2. updateState_ddtheta1 q s = Some a1 \<and> updateState_ddtheta2 q s = Some a2 \<and>
         dtheta1 u = dtheta1 s + a1 * dt \<and> dtheta2 u = dtheta2 s + a2 * dt"
    using a by (simp add: u)
  show "theta1 u = theta1 s + dtheta1 u * dt"
    by (simp add: u)
  show "theta2 u = theta2 s + dtheta2 u * dt"
    by (simp add: u)
next
  show "updateState_numer1 q s = updateState_numer1 (q\<lparr>damping := 0\<rparr>) s - damping q * dtheta1 s"
    by (simp add: updateState_numer1_def)
  show "updateState_numer2 q s = updateState_numer2 (q\<lparr>damping := 0\<rparr>) s - damping q * dtheta2 s"
    by (simp add: updateState_numer2_def)
qed

text \<open>
  The witness steps both engines from velocities \<open>1\<close> and \<open>2\<close> with damping \<open>1\<close>, no gravity
  and \<open>dt = 1/20\<close>.
\<close>

theorem integration_scheme_witness:
  "stepState \<lparr>speed = 1, m1 = 100, m2 = 50, L1 = 100, L2 = 50, g = 0, damping = 1\<rparr> (1 / 20)
      \<lparr>theta1 = 0, theta2 = 0, dtheta1 = 1, dtheta2 = 2\<rparr>
     = Some \<lparr>theta1 = 19 / 400, theta2 = 19 / 200, dtheta1 = 19 / 20, dtheta2 = 19 / 10\<rparr>
   \<and> (19 / 20 :: real) = 1 + (0 - 1 * 1) * (1 / 20)
   \<and> (19 / 400 :: real) = wrapAngle (0 + 19 / 20 * (1 / 20))
   \<and> updateState \<lparr>theta1 = 0, theta2 = 0, dtheta1 = 1, dtheta2 = 2\<rparr> (1 / 20)
        \<lparr>speed = 1, m1 = 1, m2 = 1, L1 = 2, L2 = 1, g = 0, damping = 1, k1 = 0, k2 = 0\<rparr>
     = Some \<lparr>theta1 = 79 / 1600, theta2 = 39 / 400, dtheta1 = 79 / 80, dtheta2 = 39 / 20\<rparr>
   \<and> (79 / 80 :: real) = 1 + (- 1 / 4) * (1 / 20)
   \<and> (79 / 1600 :: real) = 0 + 79 / 80 * (1 / 20)"
proof -
  have w: "wrapAngle (19 / 400) = 19 / 400" "wrapAngle (19 / 200) = 19 / 200"
    using pi_ge_two by (simp_all add: wrapAngle_id)
  have e1: "stepState \<lparr>speed = 1, m1 = 100, m2 = 50, L1 = 100, L2 = 50, g = 0, damping = 1\<rparr> (1 / 20)
      \<lparr>theta1 = 0, theta2 = 0, dtheta1 = 1, dtheta2 = 2\<rparr>
     = Some \<lparr>theta1 = 19 / 400, theta2 = 19 / 200, dtheta1 = 19 / 20, dtheta2 = 19 / 10\<rparr>"
    by (simp add: stepState_def ddtheta1_def ddtheta2_def numer1_def numer2_def denom_def
        jsdiv_def Let_def w)
  have e2: "updateState \<lparr>theta1 = 0, theta2 = 0, dtheta1 = 1, dtheta2 = 2\<rparr> (1 / 20)
        \<lparr>speed = 1, m1 = 1, m2 = 1, L1 = 2, L2 = 1, g = 0, damping = 1, k1 = 0, k2 = 0\<rparr>
     = Some \<lparr>theta1 = 79 / 1600, theta2 = 39 / 400, dtheta1 = 79 / 80, dtheta2 = 39 / 20\<rparr>"
    by (simp add: updateState_def updateState_ddtheta1_def updateState_ddtheta2_def
        updateState_numer1_def updateState_numer2_def den_def jsdiv_def Let_def)
  from integration_scheme [of "\<lparr>speed = 1, m1 = 100, m2 = 50, L1 = 100, L2 = 50, g = 0, damping = 1\<rparr>"
      "1 / 20" "\<lparr>theta1 = 0, theta2 = 0, dtheta1 = 1, dtheta2 = 2\<rparr>"
      "\<lparr>theta1 = 19 / 400, theta2 = 19 / 200, dtheta1 = 19 / 20, dtheta2 = 19 / 10\<rparr>" 0
      "\<lparr>speed = 1, m1 = 1, m2 = 1, L1 = 2, L2 = 1, g = 0, damping = 1, k1 = 0, k2 = 0\<rparr>"
      "\<lparr>theta1 = 79 / 1600, theta2 = 39 / 400, dtheta1 = 79 / 80, dtheta2 = 39 / 20\<rparr>"] e1 e2
  show ?thesis
    by simp
qed

text \<open>
  C2 as stated fails for \<open>updateState\<close>. With damping \<open>1\<close>, velocity \<open>1\<close>, \<open>dt = 1\<close>, and an
  acceleration that is \<open>0\<close> without damping, the claim's update gives \<open>1 + (0 - 1 * 1) * 1 = 0\<close>;
  \<open>updateState\<close> returns \<open>3/4\<close>, its acceleration with the damping in the numerator being
  \<open>-1/4\<close>.
\<close>

theorem integration_scheme_counterexample:
  "map_option dtheta1
     (updateState \<lparr>theta1 = 0, theta2 = 0, dtheta1 = 1, dtheta2 = 0\<rparr> 1
        \<lparr>speed = 1, m1 = 1, m2 = 1, L1 = 2, L2 = 1, g = 1, damping = 1, k1 = 0, k2 = 0\<rparr>)
   = Some (3 / 4)
   \<and> updateState_ddtheta1
        \<lparr>speed = 1, m1 = 1, m2 = 1, L1 = 2, L2 = 1, g = 1, damping = 0, k1 = 0, k2 = 0\<rparr>
        \<lparr>theta1 = 0, theta2 = 0, dtheta1 = 1, dtheta2 = 0\<rparr> = Some 0
   \<and> (1::real) + (0 - 1 * 1) * 1 \<noteq> 3 / 4
   \<and> updateState_ddtheta1
        \<lparr>speed = 1, m1 = 1, m2 = 1, L1 = 2, L2 = 1, g = 1, damping = 1, k1 = 0, k2 = 0\<rparr>
        \<lparr>theta1 = 0, theta2 = 0, dtheta1 = 1, dtheta2 = 0\<rparr> = Some (- 1 / 4)"
  by (simp add: updateState_def updateState_ddtheta1_def updateState_ddtheta2_def
      updateState_numer1_def updateState_numer2_def den_def jsdiv_def Let_def)

section \<open>The stiffness terms\<close>

text \<open>
  C3 (as the code has it). In \<open>updateState\<close> the numerators hold the terms \<open>- k1 * theta1\<close> and
  \<open>- k2 * theta2\<close>. In the frame of the application with stiffness the numerators are those
  of the plain frame with \<open>- k1 * theta1\<close> and \<open>- k2 * (theta2 - theta1)\<close> added: the second
  spring acts on the relative angle.
\<close>

theorem stiffness_terms:
  "updateState_numer1 q s = updateState_numer1 (q\<lparr>k1 := 0\<rparr>) s - k1 q * theta1 s \<and>
   updateState_numer2 q s = updateState_numer2 (q\<lparr>k2 := 0\<rparr>) s - k2 q * theta2 s \<and>
   numer1_k q s = numer1 q s - k1 q * theta1 s \<and>
   numer2_k q s = numer2 q s - k2 q * (theta2 s - theta1 s)"
  by (simp add: updateState_numer1_def updateState_numer2_def numer1_k_def numer2_k_def
      numer1_def numer2_def Let_def)

text \<open>
  C3 as stated fails for the frame's second numerator: at \<open>theta1 = \<pi>\<close>, \<open>theta2 = 0\<close>,
  \<open>k2 = 1\<close> it is \<open>\<pi>\<close>, where the plain numerator with \<open>- k2 * theta2\<close> added is \<open>0\<close>.
\<close>

theorem stiffness_terms_counterexample:
  "numer2_k \<lparr>speed = 1, m1 = 100, m2 = 50, L1 = 100, L2 = 50, g = 981 / 100, damping = 0,
             k1 = 0, k2 = 1\<rparr>
     \<lparr>theta1 = pi, theta2 = 0, dtheta1 = 0, dtheta2 = 0\<rparr> = pi
   \<and> numer2 \<lparr>speed = 1, m1 = 100, m2 = 50, L1 = 100, L2 = 50, g = 981 / 100, damping = 0,
             k1 = 0, k2 = 1\<rparr>
     \<lparr>theta1 = pi, theta2 = 0, dtheta1 = 0, dtheta2 = 0\<rparr> - 1 * 0 = 0
   \<and> pi \<noteq> 0"
  by (simp add: numer2_k_def numer2_def Let_def)

section \<open>Divergence\<close>

text \<open>
  The horizontal positions are bounded by the lengths, so a frame can only meet the
  threshold with lengths beyond the sliders' range.
\<close>

lemma bob_positions_bounded:
  assumes "getBobPositions p s = (x1, y1, x2, y2)"
  shows "\<bar>x1\<bar> \<le> \<bar>L1 p\<bar> \<and> \<bar>x2\<bar> \<le> \<bar>L1 p\<bar> + \<bar>L2 p\<bar>"
proof -
  have x: "x1 = L1 p * sin (theta1 s)" "x2 = x1 + L2 p * sin (theta2 s)"
    using assms by (simp_all add: getBobPositions_def Let_def)
  have a: "\<bar>L1 p * sin (theta1 s)\<bar> \<le> \<bar>L1 p\<bar> * 1"
    unfolding abs_mult by (intro mult_left_mono) simp_all
  have b: "\<bar>L2 p * sin (theta2 s)\<bar> \<le> \<bar>L2 p\<bar> * 1"
    unfolding abs_mult by (intro mult_left_mono) simp_all
  show ?thesis
    using a b unfolding x by linarith
qed

text \<open>
  C6. When a frame leaves a state whose forward-kinematics \<open>x1\<close> or \<open>x2\<close> exceeds \<open>10000\<close> in
  magnitude, the frame takes the branch that warns and returns without scheduling a
  further frame, and no later frame produces a state, whatever the settings and drag
  targets to come.
\<close>

theorem divergence_stops_frames:
  assumes "drawFrame p drag s = Some (s', out)"
    and "getBobPositions p s' = (x1, y1, x2, y2)"
    and "\<bar>x1\<bar> > 10000 \<or> \<bar>x2\<bar> > 10000"
  shows "out = Exploded \<and> frames ((p, drag) # rest) s = [s']"
proof -
  from assms have "out = Exploded"
    by (auto simp: drawFrame_def Let_def split: option.splits if_splits prod.splits)
  with assms(1) show ?thesis
    by simp
qed

text \<open>
  The witness is a frame with \<open>L1 = 20000\<close> and the pendulum horizontal, without gravity:
  the step leaves the state as it is and \<open>x1 = 20000\<close>.
\<close>

theorem divergence_stops_frames_witness:
  "drawFrame \<lparr>speed = 1, m1 = 1, m2 = 1, L1 = 20000, L2 = 1, g = 0, damping = 0\<rparr> None
      \<lparr>theta1 = pi / 2, theta2 = pi / 2, dtheta1 = 0, dtheta2 = 0\<rparr>
     = Some (\<lparr>theta1 = pi / 2, theta2 = pi / 2, dtheta1 = 0, dtheta2 = 0\<rparr>, Exploded)
   \<and> getBobPositions \<lparr>speed = 1, m1 = 1, m2 = 1, L1 = 20000, L2 = 1, g = 0, damping = 0\<rparr>
        \<lparr>theta1 = pi / 2, theta2 = pi / 2, dtheta1 = 0, dtheta2 = 0\<rparr> = (20000, 0, 20001, 0)
   \<and> (\<bar>20000 :: real\<bar> > 10000 \<or> \<bar>20001 :: real\<bar> > 10000)
   \<and> frames
        [(\<lparr>speed = 1, m1 = 1, m2 = 1, L1 = 20000, L2 = 1, g = 0, damping = 0\<rparr>, None),
         (\<lparr>speed = 1, m1 = 1, m2 = 1, L1 = 100, L2 = 1, g = 0, damping = 0\<rparr>, None),
         (\<lparr>speed = 1, m1 = 1, m2 = 1, L1 = 100, L2 = 1, g = 0, damping = 0\<rparr>, Some M1)]
        \<lparr>theta1 = pi / 2, theta2 = pi / 2, dtheta1 = 0, dtheta2 = 0\<rparr>
     = [\<lparr>theta1 = pi / 2, theta2 = pi / 2, dtheta1 = 0, dtheta2 = 0\<rparr>]"
proof -
  have e1: "drawFrame \<lparr>speed = 1, m1 = 1, m2 = 1, L1 = 20000, L2 = 1, g = 0, damping = 0\<rparr> None
      \<lparr>theta1 = pi / 2, theta2 = pi / 2, dtheta1 = 0, dtheta2 = 0\<rparr>
     = Some (\<lparr>theta1 = pi / 2, theta2 = pi / 2, dtheta1 = 0, dtheta2 = 0\<rparr>, Exploded)"
    by (simp add: drawFrame_def stepState_def ddtheta1_def ddtheta2_def numer1_def numer2_def
        denom_def jsdiv_def Let_def wrapAngle_pi_half getBobPositions_def)
  have e2: "getBobPositions \<lparr>speed = 1, m1 = 1, m2 = 1, L1 = 20000, L2 = 1, g = 0, damping = 0\<rparr>
        \<lparr>theta1 = pi / 2, theta2 = pi / 2, dtheta1 = 0, dtheta2 = 0\<rparr> = (20000, 0, 20001, 0)"
    by (simp add: getBobPositions_def Let_def)
  have e3: "\<bar>20000 :: real\<bar> > 10000 \<or> \<bar>20001 :: real\<bar> > 10000"
    by simp
  from divergence_stops_frames [OF e1 e2 e3,
      of "[(\<lparr>speed = 1, m1 = 1, m2 = 1, L1 = 100, L2 = 1, g = 0, damping = 0\<rparr>, None),
          (\<lparr>speed = 1, m1 = 1, m2 = 1, L1 = 100, L2 = 1, g = 0, damping = 0\<rparr>, Some M1)]"]
    e1 e2
  show ?thesis
    by simp
qed

section \<open>The two engines\<close>

text \<open>
  The denominators of the two engines are proportional, which is what the identity
  \<open>cos (2 * delta) = 2 * (cos delta)\<^sup>2 - 1\<close> gives.
\<close>

lemma denominators_proportional: "L1 q * denom q s = 2 * den q s"
  unfolding denom_def den_def cos_double_cos
  by (simp add: power2_eq_square algebra_simps)

text \<open>
  C8. The accelerations differ. With the applications' default settings, no damping and no
  stiffness, at \<open>theta1 = \<pi>/2\<close>, \<open>theta2 = 0\<close> and at rest, the frame computes
  \<open>ddtheta1 = -0.0981\<close> and \<open>updateState\<close> computes \<open>-0.001308\<close>: its gravity term has the
  factor \<open>m1 + m2\<close> where the frame has \<open>2 * m1 + m2\<close>, and its denominator \<open>L1 * den\<close> holds
  \<open>L1\<close> twice.
\<close>

theorem engines_differ:
  "ddtheta1 \<lparr>speed = 1, m1 = 100, m2 = 50, L1 = 100, L2 = 50, g = 981 / 100, damping = 0,
             k1 = 0, k2 = 0\<rparr>
     \<lparr>theta1 = pi / 2, theta2 = 0, dtheta1 = 0, dtheta2 = 0\<rparr> = Some (- 981 / 10000)
   \<and> updateState_ddtheta1 \<lparr>speed = 1, m1 = 100, m2 = 50, L1 = 100, L2 = 50, g = 981 / 100,
             damping = 0, k1 = 0, k2 = 0\<rparr>
     \<lparr>theta1 = pi / 2, theta2 = 0, dtheta1 = 0, dtheta2 = 0\<rparr> = Some (- 327 / 250000)"
  by (simp add: ddtheta1_def numer1_def denom_def updateState_ddtheta1_def
      updateState_numer1_def den_def jsdiv_def Let_def)

section \<open>Dragging bob 2\<close>

lemma clampedD_range:
  assumes "0 < L1 p" and "0 < L2 p"
  shows "\<bar>L1 p - L2 p\<bar> \<le> clampedD p x y \<and> clampedD p x y \<le> L1 p + L2 p"
  using assms by (auto simp: clampedD_def min_def max_def abs_if)

lemma two_link_distance:
  fixes a b u v :: real
  shows "(a * sin u + b * sin v)\<^sup>2 + (a * cos u + b * cos v)\<^sup>2
         = a\<^sup>2 + b\<^sup>2 + 2 * a * b * cos (v - u)"
proof -
  have "(a * sin u + b * sin v)\<^sup>2 + (a * cos u + b * cos v)\<^sup>2
        = a\<^sup>2 * ((sin u)\<^sup>2 + (cos u)\<^sup>2) + b\<^sup>2 * ((sin v)\<^sup>2 + (cos v)\<^sup>2)
          + 2 * a * b * (cos v * cos u + sin v * sin u)"
    by algebra
  also have "\<dots> = a\<^sup>2 + b\<^sup>2 + 2 * a * b * cos (v - u)"
    by (simp only: sin_cos_squared_add cos_diff mult_1_right)
  finally show ?thesis .
qed

lemma cos_pi_minus_arccos: "- 1 \<le> c \<Longrightarrow> c \<le> 1 \<Longrightarrow> cos (pi - arccos c) = - c"
  by (simp add: cos_arccos)

lemma cosB_range:
  fixes a b d :: real
  assumes "0 < a" and "0 < b" and "\<bar>a - b\<bar> \<le> d" and "d \<le> a + b"
  shows "- 1 \<le> (a\<^sup>2 + b\<^sup>2 - d\<^sup>2) / (2 * a * b) \<and> (a\<^sup>2 + b\<^sup>2 - d\<^sup>2) / (2 * a * b) \<le> 1"
proof -
  have d0: "0 \<le> d"
    using assms(3) abs_ge_zero [of "a - b"] by linarith
  have "d\<^sup>2 \<le> (a + b)\<^sup>2"
    using d0 assms(4) by (intro power_mono) simp_all
  then have lo: "- (2 * a * b) \<le> a\<^sup>2 + b\<^sup>2 - d\<^sup>2"
    by (simp add: power2_eq_square algebra_simps)
  have "\<bar>a - b\<bar>\<^sup>2 \<le> d\<^sup>2"
    using assms(3) by (intro power_mono) simp_all
  then have hi: "a\<^sup>2 + b\<^sup>2 - d\<^sup>2 \<le> 2 * a * b"
    by (simp add: power2_eq_square algebra_simps)
  have pos: "0 < 2 * a * b"
    using assms(1,2) by simp
  show ?thesis
    using lo hi pos by (simp add: pos_le_divide_eq pos_divide_le_eq)
qed

text \<open>
  Where the two-link resolver returns a state, bob 2 sits at the clamped target distance
  from the pivot, which lies in \<open>[|L1 - L2|, L1 + L2]\<close>, and both velocities are zero.
\<close>

lemma drag_bob2_reaches:
  assumes "0 < L1 p" and "0 < L2 p"
    and "screenToSim width e = (x, y)"
    and "onmousemove p width (Some M2) s e = Some s'"
    and "getBobPositions p s' = (x1, y1, x2, y2)"
  shows "hypot x2 y2 = clampedD p x y
         \<and> \<bar>L1 p - L2 p\<bar> \<le> hypot x2 y2 \<and> hypot x2 y2 \<le> L1 p + L2 p
         \<and> dtheta1 s' = 0 \<and> dtheta2 s' = 0"
proof -
  define d where "d = clampedD p x y"
  define cosB where "cosB = ((L1 p)\<^sup>2 + (L2 p)\<^sup>2 - d\<^sup>2) / (2 * L1 p * L2 p)"
  have rng: "\<bar>L1 p - L2 p\<bar> \<le> d" "d \<le> L1 p + L2 p"
    using clampedD_range [OF assms(1,2)] by (simp_all add: d_def)
  then have d0: "0 \<le> d"
    using abs_ge_zero [of "L1 p - L2 p"] by linarith
  have "jsdiv ((L1 p)\<^sup>2 + (L2 p)\<^sup>2 - d\<^sup>2) (2 * L1 p * L2 p) = Some cosB"
    using assms(1,2) by (simp add: jsdiv_def cosB_def)
  then obtain th1 where s': "s' = s\<lparr>theta1 := th1,
        theta2 := th1 + (pi - arccos (min 1 (max (- 1) cosB))),
        dtheta1 := 0, dtheta2 := 0\<rparr>"
    using assms(3,4)
    by (auto simp: onmousemove_def Let_def d_def split: option.splits)
  have cb: "- 1 \<le> cosB" "cosB \<le> 1"
    using cosB_range [OF assms(1,2) rng] by (simp_all add: cosB_def)
  then have clamp: "min 1 (max (- 1) cosB) = cosB"
    by simp
  have pos: "x2 = L1 p * sin th1 + L2 p * sin (th1 + (pi - arccos cosB))"
    "y2 = L1 p * cos th1 + L2 p * cos (th1 + (pi - arccos cosB))"
    using assms(5) by (simp_all add: getBobPositions_def Let_def s' clamp)
  have c: "cos (pi - arccos cosB) = - cosB"
    by (rule cos_pi_minus_arccos) (rule cb)+
  have m: "2 * L1 p * L2 p * cosB = (L1 p)\<^sup>2 + (L2 p)\<^sup>2 - d\<^sup>2"
    using assms(1,2) by (simp add: cosB_def)
  have "x2\<^sup>2 + y2\<^sup>2 = (L1 p)\<^sup>2 + (L2 p)\<^sup>2 + 2 * L1 p * L2 p * cos (pi - arccos cosB)"
    unfolding pos two_link_distance by simp
  also have "\<dots> = (L1 p)\<^sup>2 + (L2 p)\<^sup>2 - 2 * L1 p * L2 p * cosB"
    unfolding c by simp
  also have "\<dots> = d\<^sup>2"
    unfolding m by simp
  finally have "hypot x2 y2 = d"
    using d0 by (simp add: hypot_def)
  then show ?thesis
    using rng by (simp add: s' d_def)
qed

text \<open>
  For positive lengths the resolver has a zero divisor exactly when the links are equal
  and the pointer is on the pivot.
\<close>

lemma drag_bob2_fails_iff:
  assumes "0 < L1 p" and "0 < L2 p" and "screenToSim width e = (x, y)"
  shows "onmousemove p width (Some M2) s e = None \<longleftrightarrow> L1 p = L2 p \<and> x = 0 \<and> y = 0"
proof -
  have h: "hypot x y = 0 \<longleftrightarrow> x = 0 \<and> y = 0"
    by (simp add: hypot_def real_sqrt_eq_zero_cancel_iff sum_power2_eq_zero_iff)
  have h0: "0 \<le> hypot x y"
    by (simp add: hypot_def)
  have "clampedD p x y = 0 \<longleftrightarrow> L1 p = L2 p \<and> hypot x y = 0"
    using assms(1,2) h0 by (auto simp: clampedD_def min_def max_def abs_if)
  then show ?thesis
    using assms h by (auto simp: onmousemove_def jsdiv_def Let_def)
qed

text \<open>
  C5. With \<open>L1 = L2 = 100\<close> and the pointer on the pivot (canvas point \<open>(300, 100)\<close>), the
  clamped distance is \<open>0\<close> and \<open>cosA\<close> is the quotient \<open>0 / 0\<close>, which is \<open>NaN\<close>:
  \<open>Math.max(-1, NaN)\<close> and \<open>Math.min(1, NaN)\<close> are \<open>NaN\<close>, so the clamp lets it through to
  \<open>Math.acos\<close> and both angles are stored as \<open>NaN\<close>. The resolver returns no state there.
\<close>

theorem drag_bob2_at_pivot:
  "screenToSim 600 (300, 100) = (0, 0)
   \<and> clampedD \<lparr>speed = 1, m1 = 100, m2 = 50, L1 = 100, L2 = 100, g = 981 / 100, damping = 0\<rparr> 0 0 = 0
   \<and> (100::real)\<^sup>2 + 0\<^sup>2 - 100\<^sup>2 = 0 \<and> (2::real) * 100 * 0 = 0
   \<and> onmousemove \<lparr>speed = 1, m1 = 100, m2 = 50, L1 = 100, L2 = 100, g = 981 / 100, damping = 0\<rparr>
        600 (Some M2) \<lparr>theta1 = 0, theta2 = 0, dtheta1 = 0, dtheta2 = 0\<rparr> (300, 100) = None"
  by (simp add: screenToSim_def clampedD_def hypot_def onmousemove_def jsdiv_def)

section \<open>Hit test\<close>

text \<open>
  C7. On pointer-down, for masses that have a square root, with the pick radii
  \<open>sqrt m * 0.5\<close>: the selection is bob 2 if the pointer is closer than \<open>r2 + 5\<close> to bob 2,
  else bob 1 if it is closer than \<open>r1 + 5\<close> to bob 1, else none; when both are in range
  bob 2 is selected.
\<close>

theorem hit_test_priority:
  assumes "0 \<le> m1 p" and "0 \<le> m2 p"
    and "getBobPositions p s = (x1, y1, x2, y2)"
    and "screenToSim width e = (x, y)"
  shows "onmousedown p width s e =
           (if hypot (x - x2) (y - y2) < sqrt (m2 p) * 0.5 + 5 then Some M2
            else if hypot (x - x1) (y - y1) < sqrt (m1 p) * 0.5 + 5 then Some M1
            else None)
         \<and> (hypot (x - x2) (y - y2) < sqrt (m2 p) * 0.5 + 5 \<and>
            hypot (x - x1) (y - y1) < sqrt (m1 p) * 0.5 + 5
            \<longrightarrow> onmousedown p width s e = Some M2)"
  using assms by (simp add: onmousedown_def within_pick_def jssqrt_def Let_def)

text \<open>
  The witness has both bobs at \<open>(0, 100)\<close> with radius \<open>5\<close> (\<open>L2 = 0\<close>, masses \<open>100\<close>) and the
  click on them, at canvas point \<open>(300, 200)\<close>.
\<close>

theorem hit_test_priority_witness:
  "(0::real) \<le> 100
   \<and> getBobPositions \<lparr>speed = 1, m1 = 100, m2 = 100, L1 = 100, L2 = 0, g = 981 / 100, damping = 0\<rparr>
       \<lparr>theta1 = 0, theta2 = 0, dtheta1 = 0, dtheta2 = 0\<rparr> = (0, 100, 0, 100)
   \<and> screenToSim 600 (300, 200) = (0, 100)
   \<and> hypot (0 - 0) (100 - 100) < sqrt 100 * 0.5 + 5
   \<and> onmousedown \<lparr>speed = 1, m1 = 100, m2 = 100, L1 = 100, L2 = 0, g = 981 / 100, damping = 0\<rparr>
       600 \<lparr>theta1 = 0, theta2 = 0, dtheta1 = 0, dtheta2 = 0\<rparr> (300, 200) = Some M2"
proof -
  have e1: "getBobPositions \<lparr>speed = 1, m1 = 100, m2 = 100, L1 = 100, L2 = 0, g = 981 / 100, damping = 0\<rparr>
       \<lparr>theta1 = 0, theta2 = 0, dtheta1 = 0, dtheta2 = 0\<rparr> = (0, 100, 0, 100)"
    by (simp add: getBobPositions_def)
  have e2: "screenToSim 600 (300, 200) = (0, 100)"
    by (simp add: screenToSim_def)
  have "0 \<le> sqrt 100"
    by simp
  then have e3: "hypot (0 - 0) (100 - 100) < sqrt 100 * 0.5 + 5"
    by (simp add: hypot_def add_nonneg_pos)
  from hit_test_priority [OF _ _ e1 e2] e1 e2 e3
  show ?thesis
    by simp
qed

section \<open>The traces of simulateDoublePendulum\<close>

lemma sim_loop_done:
  "\<not> real i < steps_p p \<Longrightarrow> sim_loop p i s (x1, y1, x2, y2) = Some (x1, y1, x2, y2)"
  by (subst sim_loop.simps) simp

lemma sim_loop_none:
  "real i < steps_p p \<Longrightarrow> sim_step p s = None \<Longrightarrow> sim_loop p i s (x1, y1, x2, y2) = None"
  by (subst sim_loop.simps) simp

lemma sim_loop_step:
  assumes "real i < steps_p p" and "sim_step p s = Some s'"
    and "length x1 = i" and "length y1 = i"
  shows "sim_loop p i s (x1, y1, x2, y2) =
           sim_loop p (Suc i) s'
             (x1 @ [L1_p p * sin (theta1 s')], y1 @ [- L1_p p * cos (theta1 s')],
              x2 @ [L1_p p * sin (theta1 s') + L2_p p * sin (theta2 s')],
              y2 @ [- L1_p p * cos (theta1 s') - L2_p p * cos (theta2 s')])"
  using assms by (subst sim_loop.simps) (simp add: jsindex_def Let_def nth_append)

lemma sim_denom_pos:
  assumes "0 < m1_p p" and "0 \<le> m2_p p"
  shows "0 < sim_denom p s"
proof -
  have "m2_p p * cos (2 * (theta1 s - theta2 s)) \<le> m2_p p * 1"
    using assms(2) by (intro mult_left_mono) simp_all
  then show ?thesis
    using assms(1) by (simp add: sim_denom_def)
qed

lemma sim_step_returns:
  assumes "0 < m1_p p" and "0 \<le> m2_p p" and "L1_p p \<noteq> 0" and "L2_p p \<noteq> 0"
  shows "\<exists>s'. sim_step p s = Some s'"
  using assms sim_denom_pos [of p s]
  by (simp add: sim_step_def sim_ddtheta1_def sim_ddtheta2_def jsdiv_def Let_def)

lemma sim_loop_returns:
  assumes "0 < m1_p p" and "0 \<le> m2_p p" and "L1_p p \<noteq> 0" and "L2_p p \<noteq> 0"
    and "steps_p p = real n"
  shows "i \<le> n \<Longrightarrow> length x1 = i \<Longrightarrow> length y1 = i \<Longrightarrow>
         \<exists>r. sim_loop p i s (x1, y1, x2, y2) = Some r"
proof (induction "n - i" arbitrary: i s x1 y1 x2 y2)
  case 0
  then have "\<not> real i < steps_p p"
    using assms(5) by simp
  then show ?case
    by (simp add: sim_loop_done)
next
  case (Suc k)
  then have lt: "real i < steps_p p"
    using assms(5) by simp
  obtain s' where s': "sim_step p s = Some s'"
    using sim_step_returns [OF assms(1-4)] by blast
  have "\<exists>r. sim_loop p (Suc i) s'
             (x1 @ [L1_p p * sin (theta1 s')], y1 @ [- L1_p p * cos (theta1 s')],
              x2 @ [L1_p p * sin (theta1 s') + L2_p p * sin (theta2 s')],
              y2 @ [- L1_p p * cos (theta1 s') - L2_p p * cos (theta2 s')]) = Some r"
    using Suc by (intro Suc.hyps(1)) simp_all
  then show ?case
    using sim_loop_step [OF lt s' Suc.prems(2,3)] by simp
qed

lemma sim_loop_traces:
  assumes "steps_p p = real n"
  shows "i \<le> n \<Longrightarrow> length x1 = i \<Longrightarrow> length y1 = i \<Longrightarrow> length x2 = i \<Longrightarrow> length y2 = i \<Longrightarrow>
         sim_loop p i s (x1, y1, x2, y2) = Some (X1, Y1, X2, Y2) \<Longrightarrow>
         length X1 = n \<and> length Y1 = n \<and> length X2 = n \<and> length Y2 = n \<and>
         take i X1 = x1 \<and> take i Y1 = y1 \<and> take i X2 = x2 \<and> take i Y2 = y2 \<and>
         (\<forall>j. i \<le> j \<and> j < n \<longrightarrow>
            (\<exists>sj. sim_iter p (Suc (j - i)) s = Some sj \<and>
               X1 ! j = L1_p p * sin (theta1 sj) \<and>
               Y1 ! j = - L1_p p * cos (theta1 sj) \<and>
               X2 ! j = X1 ! j + L2_p p * sin (theta2 sj) \<and>
               Y2 ! j = Y1 ! j - L2_p p * cos (theta2 sj)))"
proof (induction "n - i" arbitrary: i s x1 y1 x2 y2)
  case 0
  then have "\<not> real i < steps_p p" and "i = n"
    using assms by simp_all
  with 0 show ?case
    by (auto simp: sim_loop_done)
next
  case (Suc k)
  then have lt: "real i < steps_p p"
    using assms by simp
  obtain s' where s': "sim_step p s = Some s'"
    using Suc.prems(6) lt by (cases "sim_step p s") (simp_all add: sim_loop_none)
  let ?x1 = "x1 @ [L1_p p * sin (theta1 s')]"
  let ?y1 = "y1 @ [- L1_p p * cos (theta1 s')]"
  let ?x2 = "x2 @ [L1_p p * sin (theta1 s') + L2_p p * sin (theta2 s')]"
  let ?y2 = "y2 @ [- L1_p p * cos (theta1 s') - L2_p p * cos (theta2 s')]"
  have rec: "sim_loop p (Suc i) s' (?x1, ?y1, ?x2, ?y2) = Some (X1, Y1, X2, Y2)"
    using sim_loop_step [OF lt s' Suc.prems(2,3)] Suc.prems(6) by simp
  have ih: "length X1 = n \<and> length Y1 = n \<and> length X2 = n \<and> length Y2 = n \<and>
         take (Suc i) X1 = ?x1 \<and> take (Suc i) Y1 = ?y1 \<and>
         take (Suc i) X2 = ?x2 \<and> take (Suc i) Y2 = ?y2 \<and>
         (\<forall>j. Suc i \<le> j \<and> j < n \<longrightarrow>
            (\<exists>sj. sim_iter p (Suc (j - Suc i)) s' = Some sj \<and>
               X1 ! j = L1_p p * sin (theta1 sj) \<and>
               Y1 ! j = - L1_p p * cos (theta1 sj) \<and>
               X2 ! j = X1 ! j + L2_p p * sin (theta2 sj) \<and>
               Y2 ! j = Y1 ! j - L2_p p * cos (theta2 sj)))"
    using Suc.hyps(2) Suc.prems(1-5) rec by (intro Suc.hyps(1)) simp_all
  have tk: "take i X1 = x1" "take i Y1 = y1" "take i X2 = x2" "take i Y2 = y2"
  proof -
    have "take i X1 = take i (take (Suc i) X1)" "take i Y1 = take i (take (Suc i) Y1)"
      "take i X2 = take i (take (Suc i) X2)" "take i Y2 = take i (take (Suc i) Y2)"
      by (simp_all add: min_def)
    then show "take i X1 = x1" "take i Y1 = y1" "take i X2 = x2" "take i Y2 = y2"
      using ih Suc.prems(2-5) by simp_all
  qed
  have at_i: "X1 ! i = L1_p p * sin (theta1 s')" "Y1 ! i = - L1_p p * cos (theta1 s')"
    "X2 ! i = L1_p p * sin (theta1 s') + L2_p p * sin (theta2 s')"
    "Y2 ! i = - L1_p p * cos (theta1 s') - L2_p p * cos (theta2 s')"
  proof -
    have "X1 ! i = take (Suc i) X1 ! i" "Y1 ! i = take (Suc i) Y1 ! i"
      "X2 ! i = take (Suc i) X2 ! i" "Y2 ! i = take (Suc i) Y2 ! i"
      by simp_all
    then show "X1 ! i = L1_p p * sin (theta1 s')" "Y1 ! i = - L1_p p * cos (theta1 s')"
      "X2 ! i = L1_p p * sin (theta1 s') + L2_p p * sin (theta2 s')"
      "Y2 ! i = - L1_p p * cos (theta1 s') - L2_p p * cos (theta2 s')"
      using ih Suc.prems(2-5) by (simp_all add: nth_append)
  qed
  have "\<exists>sj. sim_iter p (Suc (j - i)) s = Some sj \<and>
               X1 ! j = L1_p p * sin (theta1 sj) \<and>
               Y1 ! j = - L1_p p * cos (theta1 sj) \<and>
               X2 ! j = X1 ! j + L2_p p * sin (theta2 sj) \<and>
               Y2 ! j = Y1 ! j - L2_p p * cos (theta2 sj)"
    if j: "i \<le> j" "j < n" for j
  proof (cases "j = i")
    case True
    then show ?thesis
      using s' at_i by simp
  next
    case False
    then have "Suc i \<le> j" and d: "j - i = Suc (j - Suc i)"
      using j by simp_all
    then obtain sj where "sim_iter p (Suc (j - Suc i)) s' = Some sj"
      and "X1 ! j = L1_p p * sin (theta1 sj)" "Y1 ! j = - L1_p p * cos (theta1 sj)"
      "X2 ! j = X1 ! j + L2_p p * sin (theta2 sj)" "Y2 ! j = Y1 ! j - L2_p p * cos (theta2 sj)"
      using ih j(2) by blast
    then show ?thesis
      using s' by (simp add: d)
  qed
  then show ?case
    using ih tk by blast
qed

text \<open>
  C10. When \<open>steps\<close> is the natural number \<open>n\<close>: for positive masses and non-zero lengths
  \<open>simulateDoublePendulum\<close> returns; and what it returns is four arrays of length \<open>n\<close> whose
  entries at \<open>i\<close> are the positions of the state after \<open>i + 1\<close> iterations, with
  \<open>y1 = - L1 * cos theta1\<close> and \<open>y2 = y1 - L2 * cos theta2\<close>.
\<close>

theorem simulateDoublePendulum_traces:
  assumes "steps_p p = real n"
  shows "(0 < m1_p p \<and> 0 \<le> m2_p p \<and> L1_p p \<noteq> 0 \<and> L2_p p \<noteq> 0
            \<longrightarrow> (\<exists>r. simulateDoublePendulum p = Some r))
         \<and> (simulateDoublePendulum p = Some (x1, y1, x2, y2) \<longrightarrow>
              length x1 = n \<and> length y1 = n \<and> length x2 = n \<and> length y2 = n \<and>
              (\<forall>i<n. \<exists>s.
                 sim_iter p (Suc i)
                   \<lparr>theta1 = theta1_p p, theta2 = theta2_p p,
                    dtheta1 = dtheta1_p p, dtheta2 = dtheta2_p p\<rparr> = Some s \<and>
                 x1 ! i = L1_p p * sin (theta1 s) \<and>
                 y1 ! i = - L1_p p * cos (theta1 s) \<and>
                 x2 ! i = x1 ! i + L2_p p * sin (theta2 s) \<and>
                 y2 ! i = y1 ! i - L2_p p * cos (theta2 s)))"
proof (intro conjI impI)
  assume "0 < m1_p p \<and> 0 \<le> m2_p p \<and> L1_p p \<noteq> 0 \<and> L2_p p \<noteq> 0"
  then show "\<exists>r. simulateDoublePendulum p = Some r"
    using sim_loop_returns [of p n 0 "[]" "[]"] assms
    by (simp add: simulateDoublePendulum_def)
next
  assume "simulateDoublePendulum p = Some (x1, y1, x2, y2)"
  then have r: "sim_loop p 0
       \<lparr>theta1 = theta1_p p, theta2 = theta2_p p,
        dtheta1 = dtheta1_p p, dtheta2 = dtheta2_p p\<rparr>
       ([], [], [], []) = Some (x1, y1, x2, y2)"
    by (simp add: simulateDoublePendulum_def)
  have all: "length x1 = n \<and> length y1 = n \<and> length x2 = n \<and> length y2 = n \<and>
         take 0 x1 = [] \<and> take 0 y1 = [] \<and> take 0 x2 = [] \<and> take 0 y2 = [] \<and>
         (\<forall>j. 0 \<le> j \<and> j < n \<longrightarrow>
            (\<exists>sj. sim_iter p (Suc (j - 0))
                    \<lparr>theta1 = theta1_p p, theta2 = theta2_p p,
                     dtheta1 = dtheta1_p p, dtheta2 = dtheta2_p p\<rparr> = Some sj \<and>
               x1 ! j = L1_p p * sin (theta1 sj) \<and>
               y1 ! j = - L1_p p * cos (theta1 sj) \<and>
               x2 ! j = x1 ! j + L2_p p * sin (theta2 sj) \<and>
               y2 ! j = y1 ! j - L2_p p * cos (theta2 sj)))"
    by (rule sim_loop_traces [OF assms _ _ _ _ _ r]) simp_all
  then show "length x1 = n" "length y1 = n" "length x2 = n" "length y2 = n"
    by simp_all
  show "\<forall>i<n. \<exists>s.
                 sim_iter p (Suc i)
                   \<lparr>theta1 = theta1_p p, theta2 = theta2_p p,
                    dtheta1 = dtheta1_p p, dtheta2 = dtheta2_p p\<rparr> = Some s \<and>
                 x1 ! i = L1_p p * sin (theta1 s) \<and>
                 y1 ! i = - L1_p p * cos (theta1 s) \<and>
                 x2 ! i = x1 ! i + L2_p p * sin (theta2 s) \<and>
                 y2 ! i = y1 ! i - L2_p p * cos (theta2 s)"
    using all by simp
qed

text \<open>
  The witness runs two steps of a pendulum that turns by a quarter turn per step without
  gravity.
\<close>

lemma sim_example_step1:
  "sim_step \<lparr>m1_p = 100, m2_p = 50, L1_p = 1, L2_p = 1 / 2, g_p = 0, theta1_p = 0, theta2_p = 0,
             dtheta1_p = pi / 2, dtheta2_p = pi / 2, dt_p = 1, steps_p = 2\<rparr>
     \<lparr>theta1 = 0, theta2 = 0, dtheta1 = pi / 2, dtheta2 = pi / 2\<rparr>
   = Some \<lparr>theta1 = pi / 2, theta2 = pi / 2, dtheta1 = pi / 2, dtheta2 = pi / 2\<rparr>"
  by (simp add: sim_step_def sim_ddtheta1_def sim_ddtheta2_def sim_denom_def jsdiv_def Let_def)

lemma sim_example_step2:
  "sim_step \<lparr>m1_p = 100, m2_p = 50, L1_p = 1, L2_p = 1 / 2, g_p = 0, theta1_p = 0, theta2_p = 0,
             dtheta1_p = pi / 2, dtheta2_p = pi / 2, dt_p = 1, steps_p = 2\<rparr>
     \<lparr>theta1 = pi / 2, theta2 = pi / 2, dtheta1 = pi / 2, dtheta2 = pi / 2\<rparr>
   = Some \<lparr>theta1 = pi, theta2 = pi, dtheta1 = pi / 2, dtheta2 = pi / 2\<rparr>"
  by (simp add: sim_step_def sim_ddtheta1_def sim_ddtheta2_def sim_denom_def jsdiv_def Let_def)

lemma sim_example:
  "simulateDoublePendulum
     \<lparr>m1_p = 100, m2_p = 50, L1_p = 1, L2_p = 1 / 2, g_p = 0, theta1_p = 0, theta2_p = 0,
      dtheta1_p = pi / 2, dtheta2_p = pi / 2, dt_p = 1, steps_p = 2\<rparr>
   = Some ([1, 0], [0, 1], [3 / 2, 0], [0, 3 / 2])"
  unfolding simulateDoublePendulum_def
  apply simp
  apply (subst sim_loop_step [OF _ sim_example_step1])
     apply simp_all
  apply (subst sim_loop_step [OF _ sim_example_step2])
     apply simp_all
  apply (subst sim_loop_done)
   apply simp_all
  done

theorem simulateDoublePendulum_traces_witness:
  "steps_p \<lparr>m1_p = 100, m2_p = 50, L1_p = 1, L2_p = 1 / 2, g_p = 0, theta1_p = 0, theta2_p = 0,
            dtheta1_p = pi / 2, dtheta2_p = pi / 2, dt_p = 1, steps_p = 2\<rparr> = real 2
   \<and> (0::real) < 100 \<and> (0::real) \<le> 50 \<and> (1::real) \<noteq> 0 \<and> (1 / 2 :: real) \<noteq> 0
   \<and> simulateDoublePendulum
       \<lparr>m1_p = 100, m2_p = 50, L1_p = 1, L2_p = 1 / 2, g_p = 0, theta1_p = 0, theta2_p = 0,
        dtheta1_p = pi / 2, dtheta2_p = pi / 2, dt_p = 1, steps_p = 2\<rparr>
     = Some ([1, 0], [0, 1], [3 / 2, 0], [0, 3 / 2])
   \<and> length [1, 0 :: real] = 2 \<and> length [0, 1 :: real] = 2
   \<and> length [3 / 2, 0 :: real] = 2 \<and> length [0, 3 / 2 :: real] = 2"
proof -
  have h: "steps_p \<lparr>m1_p = 100, m2_p = 50, L1_p = 1, L2_p = 1 / 2, g_p = 0, theta1_p = 0,
            theta2_p = 0, dtheta1_p = pi / 2, dtheta2_p = pi / 2, dt_p = 1, steps_p = 2\<rparr> = real 2"
    by simp
  from simulateDoublePendulum_traces [OF h, of "[1, 0]" "[0, 1]" "[3 / 2, 0]" "[0, 3 / 2]"]
    sim_example
  show ?thesis
    by simp
qed

end
